theory Spec2Isabelle
  imports Main
begin

section \<open>Python values used by \<open>automate_search\<close>\<close>

text \<open>
  Exceptions are values. \<open>is_driver_alive\<close> is the only place of the checker that tells
  Selenium's \<open>WebDriverException\<close> from other exceptions; \<open>float\<close> raises \<open>ValueError\<close>;
  every other handler is \<open>except Exception\<close> or a bare \<open>except\<close>.
\<close>

datatype exc = WebDriverException | ValueError | OtherException

type_synonym 'a res = "exc + 'a"

type_synonym handle = string

subsection \<open>Text: \<open>str.strip\<close>, case folding, substring test\<close>

text \<open>
  Strings are byte lists; the model covers ASCII text. The whitespace of \<open>str.strip\<close> and of
  \<open>\s\<close> in a \<open>str\<close> pattern is, below 128, the characters 9 to 13, 28 to 31 and 32.
\<close>

definition is_space :: "char \<Rightarrow> bool" where
  "is_space c = (c \<in> set [CHR 0x09, CHR 0x0A, CHR 0x0B, CHR 0x0C, CHR 0x0D,
                           CHR 0x1C, CHR 0x1D, CHR 0x1E, CHR 0x1F, CHR 0x20])"

definition strip :: "string \<Rightarrow> string" where
  "strip s = rev (dropWhile is_space (rev (dropWhile is_space s)))"

definition lower :: "char \<Rightarrow> char" where
  "lower c = (case map_of (zip ''ABCDEFGHIJKLMNOPQRSTUVWXYZ'' ''abcdefghijklmnopqrstuvwxyz'') c of
                Some d \<Rightarrow> d | None \<Rightarrow> c)"

text \<open>\<open>needle in haystack\<close> on strings.\<close>

fun contains :: "string \<Rightarrow> string \<Rightarrow> bool" where
  "contains needle [] = (needle = [])"
| "contains needle (c # cs) = (take (length needle) (c # cs) = needle \<or> contains needle cs)"

subsection \<open>\<open>re.search(pattern, text, re.IGNORECASE)\<close>\<close>

text \<open>
  The patterns of the checker use literals, \<open>\s+\<close>, alternation, grouping and \<open>?\<close>.
  \<open>rmatch r s\<close> lists the remainders of \<open>s\<close> after each way \<open>r\<close> matches a prefix of it, in
  the order a backtracking matcher tries them; \<open>re_search\<close> tries every start position and
  is read for its truth value only, as the checker does.
\<close>

datatype rx = Chr char | Ws1 | Eps | Cat rx rx | Alt rx rx | Opt rx

fun ws_tails :: "string \<Rightarrow> string list" where
  "ws_tails [] = []"
| "ws_tails (c # cs) = (if is_space c then ws_tails cs @ [cs] else [])"

fun rmatch :: "rx \<Rightarrow> string \<Rightarrow> string list" where
  "rmatch (Chr c) s = (case s of [] \<Rightarrow> [] | d # ds \<Rightarrow> if lower d = lower c then [ds] else [])"
| "rmatch Ws1 s = ws_tails s"
| "rmatch Eps s = [s]"
| "rmatch (Cat a b) s = concat (map (rmatch b) (rmatch a s))"
| "rmatch (Alt a b) s = rmatch a s @ rmatch b s"
| "rmatch (Opt a) s = rmatch a s @ [s]"

fun re_search :: "rx \<Rightarrow> string \<Rightarrow> bool" where
  "re_search r [] = (rmatch r [] \<noteq> [])"
| "re_search r (c # cs) = (rmatch r (c # cs) \<noteq> [] \<or> re_search r cs)"

definition lit :: "string \<Rightarrow> rx" where
  "lit s = foldr (\<lambda>c r. Cat (Chr c) r) s Eps"

text \<open>\<^verbatim>\<open>not\s+carried\s+in\s+your\s+rsc\<close>, \<^verbatim>\<open>not\s+carried\s+by\s+rsc\<close>, \<^verbatim>\<open>not\s+in\s+rsc\<close>\<close>

definition rx_not_carried_in_your_rsc :: rx where
  "rx_not_carried_in_your_rsc =
     foldr Cat [lit ''not'', Ws1, lit ''carried'', Ws1, lit ''in'', Ws1, lit ''your'', Ws1] (lit ''rsc'')"

definition rx_not_carried_by_rsc :: rx where
  "rx_not_carried_by_rsc =
     foldr Cat [lit ''not'', Ws1, lit ''carried'', Ws1, lit ''by'', Ws1] (lit ''rsc'')"

definition rx_not_in_rsc :: rx where
  "rx_not_in_rsc = foldr Cat [lit ''not'', Ws1, lit ''in'', Ws1] (lit ''rsc'')"

definition matches_not_in_rsc :: "string \<Rightarrow> bool" where
  "matches_not_in_rsc status_text =
     (re_search rx_not_carried_in_your_rsc status_text \<or>
      re_search rx_not_carried_by_rsc status_text \<or>
      re_search rx_not_in_rsc status_text)"

text \<open>\<^verbatim>\<open>cancel(?:led|lation)?|close(?:out|-out|d out)\<close> and \<^verbatim>\<open>replacement|discontinued\<close>\<close>

definition has_cancelled_or_closeout :: "string \<Rightarrow> bool" where
  "has_cancelled_or_closeout status_text =
     re_search (Alt (Cat (lit ''cancel'') (Opt (Alt (lit ''led'') (lit ''lation''))))
                    (Cat (lit ''close'') (Alt (lit ''out'') (Alt (lit ''-out'') (lit ''d out'')))))
               status_text"

definition has_replacement_or_discontinued :: "string \<Rightarrow> bool" where
  "has_replacement_or_discontinued status_text =
     re_search (Alt (lit ''replacement'') (lit ''discontinued'')) status_text"

subsection \<open>\<open>float(text) > 0\<close>\<close>

text \<open>
  \<open>float\<close> on a string: surrounding C whitespace is dropped, underscores are allowed between
  digits only, then an optional sign and \<open>inf\<close>, \<open>infinity\<close>, \<open>nan\<close> (any case) or a decimal
  number with an optional exponent; anything else raises \<open>ValueError\<close>. The parsed value is
  kept exact: \<open>Dec neg m e\<close> stands for \<open>\<plusminus> m * 10 ^ e\<close>. The double that Python
  builds is the nearest one, ties to even, so it is greater than zero exactly when the
  exact value is positive and above \<open>2 ^ -1075\<close>, half of the least positive double.
\<close>

datatype pyfloat = Nan | Inf bool | Dec bool nat int

definition is_c_space :: "char \<Rightarrow> bool" where
  "is_c_space c = (c \<in> set [CHR 0x09, CHR 0x0A, CHR 0x0B, CHR 0x0C, CHR 0x0D, CHR 0x20])"

definition is_digit :: "char \<Rightarrow> bool" where
  "is_digit c = (c \<in> set ''0123456789'')"

definition digit_val :: "char \<Rightarrow> nat" where
  "digit_val c = (case map_of (zip ''0123456789'' [0, 1, 2, 3, 4, 5, 6, 7, 8, 9]) c of
                    Some n \<Rightarrow> n | None \<Rightarrow> 0)"

definition digits_val :: "string \<Rightarrow> nat" where
  "digits_val ds = foldl (\<lambda>n c. 10 * n + digit_val c) 0 ds"

fun drop_underscores :: "char \<Rightarrow> string \<Rightarrow> string option" where
  "drop_underscores prev [] = (if prev = CHR ''_'' then None else Some [])"
| "drop_underscores prev (c # cs) =
     (if c = CHR ''_'' then (if is_digit prev then drop_underscores c cs else None)
      else if prev = CHR ''_'' \<and> \<not> is_digit c then None
      else map_option ((#) c) (drop_underscores c cs))"

definition split_sign :: "string \<Rightarrow> bool \<times> string" where
  "split_sign s =
     (case s of
        [] \<Rightarrow> (False, [])
      | c # cs \<Rightarrow> if c = CHR ''-'' then (True, cs) else if c = CHR ''+'' then (False, cs) else (False, s))"

definition parse_exponent :: "string \<Rightarrow> int option" where
  "parse_exponent s =
     (case s of
        [] \<Rightarrow> Some 0
      | c # cs \<Rightarrow>
          if c = CHR ''e'' \<or> c = CHR ''E'' then
            (case split_sign cs of
               (neg, ds) \<Rightarrow>
                 if ds \<noteq> [] \<and> list_all is_digit ds
                 then Some (if neg then - int (digits_val ds) else int (digits_val ds))
                 else None)
          else None)"

definition parse_number :: "string \<Rightarrow> (nat \<times> int) option" where
  "parse_number s =
     (let ip = takeWhile is_digit s; r1 = dropWhile is_digit s in
      case (case r1 of
              [] \<Rightarrow> ([], [])
            | c # cs \<Rightarrow> if c = CHR ''.'' then (takeWhile is_digit cs, dropWhile is_digit cs)
                        else ([], r1)) of
        (fp, r2) \<Rightarrow>
          if ip = [] \<and> fp = [] then None
          else (case parse_exponent r2 of
                  None \<Rightarrow> None
                | Some e \<Rightarrow> Some (digits_val (ip @ fp), e - int (length fp))))"

definition py_float :: "string \<Rightarrow> pyfloat res" where
  "py_float s =
     (case drop_underscores (CHR 0x00)
             (rev (dropWhile is_c_space (rev (dropWhile is_c_space s)))) of
        None \<Rightarrow> Inl ValueError
      | Some t \<Rightarrow>
          (case split_sign t of
             (neg, body) \<Rightarrow>
               if map lower body = ''inf'' \<or> map lower body = ''infinity'' then Inr (Inf neg)
               else if map lower body = ''nan'' then Inr Nan
               else (case parse_number body of
                       None \<Rightarrow> Inl ValueError
                     | Some (m, e) \<Rightarrow> Inr (Dec neg m e))))"

definition float_gt_zero :: "pyfloat \<Rightarrow> bool" where
  "float_gt_zero v =
     (case v of
        Nan \<Rightarrow> False
      | Inf neg \<Rightarrow> \<not> neg
      | Dec neg m e \<Rightarrow>
          \<not> neg \<and> (if 0 \<le> e then 0 < m else (10::int) ^ nat (- e) < int m * 2 ^ 1075))"

section \<open>The browser as a script of responses\<close>

text \<open>
  The browser is outside the program. One iteration of the \<open>while\<close> loop of
  \<open>automate_search\<close> reaches every driver call of its body at most once (the calls inside
  the three inner loops once per handle, frame or attempt), so the browser of one iteration
  is a record with one field for each call site: the value the call returns, or the
  exception it raises. Field names end in the source line of the call.
\<close>

record popup_io =
  ph :: handle
  p_switch :: "unit res"
  p_close :: "unit res"

record search_io =
  update_status_370 :: "unit res"
  switch_main_371 :: "unit res"
  search_box_373 :: "unit res"
  switch_main_378 :: "unit res"
  get_home_379 :: "unit res"
  wait_box_380 :: "unit res"
  search_box_385 :: "unit res"
  handles_392 :: "popup_io list res"
  switch_main_399 :: "unit res"
  clear_402 :: "unit res"
  send_keys_403 :: "unit res"
  send_return_404 :: "unit res"
  handles_411 :: "(handle \<times> unit res) list res"
  switch_main_446 :: "unit res"

record redirect_io =
  current_url_448 :: "string res"
  switch_main_452 :: "unit res"
  get_home_453 :: "unit res"
  wait_box_454 :: "unit res"
  handles_458 :: "popup_io list res"
  switch_main_465 :: "unit res"

record frame_io =
  switch_frame_495 :: "unit res"
  find_element_498 :: "unit res"
  page_source_504 :: "unit res"
  default_content_506 :: "unit res"
  default_content_510 :: "unit res"

record popup_nav_io =
  window_handles_468 :: "handle list res"
  switch_popup_477 :: "unit res"
  iframes_482 :: "frame_io list res"
  switch_main_488 :: "unit res"
  switch_main_514 :: "unit res"

text \<open>
  An element read is the raw \<open>.text\<close> of the element, or the exception of the wait or of
  \<open>.text\<close>: both are inside the same \<open>try\<close> at every read of the checker.
\<close>

record status_io =
  status_div_521 :: "string res"
  default_content_537 :: "unit res"
  switch_main_538 :: "unit res"
  default_content_553 :: "unit res"
  switch_main_554 :: "unit res"

record rules_io =
  content_div_563 :: "nat \<Rightarrow> string res"
  page_source_573 :: "nat \<Rightarrow> unit res"
  link_element_584 :: "string res"
  order_span_596 :: "string res"
  location_element_614 :: "string res"
  default_content_629 :: "unit res"
  switch_main_630 :: "unit res"

record restart_io =
  start_browser_and_login :: "unit res"
  current_window_handle :: "handle res"

record world =
  title_297 :: "string res"
  health_restart :: restart_io
  search :: search_io
  redirect :: redirect_io
  popup :: popup_nav_io
  status :: status_io
  rules :: rules_io
  fault_restart :: restart_io

section \<open>The result sheet and the state of one pass\<close>

text \<open>
  The seven keys of \<open>column_map\<close> in \<open>append_to_excel\<close>. A pass records the columns it
  hands to \<open>append_to_excel\<close> for its part number, in order; the workbook file itself is
  outside the model. \<open>closed\<close> lists the windows on which \<open>driver.close()\<close> returned, and
  \<open>focus\<close> is the target of the last \<open>driver.switch_to\<close> call that returned.
\<close>

datatype column =
  No_Discovery | No_Asterisk | Cancelled | On_Order | No_Location | Not_in_AceNet | Not_in_RSC

datatype focus = Window handle | Frame handle nat

record pstate =
  events :: "column list"
  closed :: "handle list"
  focus :: focus

text \<open>
  How a phase of the \<open>try\<close> body is left before its end: \<open>idx += 1; continue\<close>, an
  exception on its way to the handler of line 632, or the handler of line 417.
\<close>

datatype control = Advance | Raised exc | Conn_restart

definition append_to_excel :: "column \<Rightarrow> pstate \<Rightarrow> pstate" where
  "append_to_excel c s = s\<lparr>events := events s @ [c]\<rparr>"

fun window_of :: "focus \<Rightarrow> handle" where
  "window_of (Window h) = h"
| "window_of (Frame h i) = h"

definition focus_window :: "handle \<Rightarrow> pstate \<Rightarrow> pstate" where
  "focus_window h s = s\<lparr>focus := Window h\<rparr>"

definition focus_frame :: "nat \<Rightarrow> pstate \<Rightarrow> pstate" where
  "focus_frame i s = s\<lparr>focus := Frame (window_of (focus s)) i\<rparr>"

definition focus_default :: "pstate \<Rightarrow> pstate" where
  "focus_default s = s\<lparr>focus := Window (window_of (focus s))\<rparr>"

definition bind_phase ::
  "pstate \<times> control option \<Rightarrow> (pstate \<Rightarrow> pstate \<times> control option) \<Rightarrow> pstate \<times> control option" where
  "bind_phase r f = (case r of (s, None) \<Rightarrow> f s | (s, Some c) \<Rightarrow> (s, Some c))"

definition last_phase ::
  "pstate \<times> control option \<Rightarrow> (pstate \<Rightarrow> pstate \<times> control) \<Rightarrow> pstate \<times> control" where
  "last_phase r f = (case r of (s, None) \<Rightarrow> f s | (s, Some c) \<Rightarrow> (s, c))"

section \<open>The body of the \<open>try\<close> of \<open>automate_search\<close>, lines 369 to 631\<close>

text \<open>
  Lines 392 to 398 and 458 to 464: every handle other than the main window is switched to
  and closed inside \<open>try ... except: pass\<close>.
\<close>

fun close_popups :: "handle \<Rightarrow> popup_io list \<Rightarrow> pstate \<Rightarrow> pstate" where
  "close_popups main_window [] s = s"
| "close_popups main_window (p # ps) s =
     (if ph p \<noteq> main_window then
        (case p_switch p of
           Inl _ \<Rightarrow> close_popups main_window ps s
         | Inr _ \<Rightarrow>
             (case p_close p of
                Inl _ \<Rightarrow> close_popups main_window ps (focus_window (ph p) s)
              | Inr _ \<Rightarrow>
                  close_popups main_window ps
                    ((focus_window (ph p) s)\<lparr>closed := closed s @ [ph p]\<rparr>)))
      else close_popups main_window ps s)"

text \<open>Lines 369 to 401: find the search box, with one retry after reloading the home page.\<close>

definition locate_search_box :: "search_io \<Rightarrow> handle \<Rightarrow> pstate \<Rightarrow> pstate \<times> control option" where
  "locate_search_box io main_window s =
     (case update_status_370 io of Inl e \<Rightarrow> (s, Some (Raised e)) | Inr _ \<Rightarrow>
      case switch_main_371 io of Inl e \<Rightarrow> (s, Some (Raised e)) | Inr _ \<Rightarrow>
      let s1 = focus_window main_window s in
      case search_box_373 io of Inr _ \<Rightarrow> (s1, None) | Inl _ \<Rightarrow>
      case switch_main_378 io of Inl e \<Rightarrow> (s1, Some (Raised e)) | Inr _ \<Rightarrow>
      case get_home_379 io of Inl e \<Rightarrow> (s1, Some (Raised e)) | Inr _ \<Rightarrow>
      case wait_box_380 io of Inl e \<Rightarrow> (s1, Some (Raised e)) | Inr _ \<Rightarrow>
      case search_box_385 io of Inr _ \<Rightarrow> (s1, None) | Inl _ \<Rightarrow>
      let s2 = append_to_excel Not_in_AceNet s1 in
      case handles_392 io of Inl e \<Rightarrow> (s2, Some (Raised e)) | Inr hs \<Rightarrow>
      let s3 = close_popups main_window hs s2 in
      case switch_main_399 io of Inl e \<Rightarrow> (s3, Some (Raised e)) | Inr _ \<Rightarrow>
      (focus_window main_window s3, Some Advance))"

text \<open>
  Lines 402 to 447: submit the part number; the debug loop visits every window, and only
  \<open>driver.window_handles\<close> itself can reach the handler of line 417, which records
  \<open>Not in AceNet\<close> before it restarts the browser.
\<close>

fun visit_windows :: "(handle \<times> unit res) list \<Rightarrow> pstate \<Rightarrow> pstate" where
  "visit_windows [] s = s"
| "visit_windows ((h, r) # hs) s =
     (case r of Inl _ \<Rightarrow> visit_windows hs s | Inr _ \<Rightarrow> visit_windows hs (focus_window h s))"

definition submit_search :: "search_io \<Rightarrow> handle \<Rightarrow> pstate \<Rightarrow> pstate \<times> control option" where
  "submit_search io main_window s =
     (case clear_402 io of Inl e \<Rightarrow> (s, Some (Raised e)) | Inr _ \<Rightarrow>
      case send_keys_403 io of Inl e \<Rightarrow> (s, Some (Raised e)) | Inr _ \<Rightarrow>
      case send_return_404 io of Inl e \<Rightarrow> (s, Some (Raised e)) | Inr _ \<Rightarrow>
      case handles_411 io of
        Inl _ \<Rightarrow> (append_to_excel Not_in_AceNet s, Some Conn_restart)
      | Inr hs \<Rightarrow>
          let s1 = visit_windows hs s in
          case switch_main_446 io of Inl e \<Rightarrow> (s1, Some (Raised e)) | Inr _ \<Rightarrow>
          (focus_window main_window s1, None))"

text \<open>Lines 448 to 467: the main window was redirected to the search-results page.\<close>

definition check_redirect :: "redirect_io \<Rightarrow> handle \<Rightarrow> pstate \<Rightarrow> pstate \<times> control option" where
  "check_redirect io main_window s =
     (case current_url_448 io of Inl e \<Rightarrow> (s, Some (Raised e)) | Inr main_url \<Rightarrow>
      if contains ''/search/product?q='' main_url then
        let s1 = append_to_excel Not_in_AceNet s in
        case switch_main_452 io of Inl e \<Rightarrow> (s1, Some (Raised e)) | Inr _ \<Rightarrow>
        let s2 = focus_window main_window s1 in
        case get_home_453 io of Inl e \<Rightarrow> (s2, Some (Raised e)) | Inr _ \<Rightarrow>
        case wait_box_454 io of Inl e \<Rightarrow> (s2, Some (Raised e)) | Inr _ \<Rightarrow>
        case handles_458 io of Inl e \<Rightarrow> (s2, Some (Raised e)) | Inr hs \<Rightarrow>
        let s3 = close_popups main_window hs s2 in
        case switch_main_465 io of Inl e \<Rightarrow> (s3, Some (Raised e)) | Inr _ \<Rightarrow>
        (focus_window main_window s3, Some Advance)
      else (s, None))"

text \<open>
  Lines 493 to 510, one frame: \<open>Inr True\<close> is \<open>iframe_switched = True; break\<close>,
  \<open>Inr False\<close> goes on to the next frame, \<open>Inl\<close> is an exception of the handler of
  line 508 itself.
\<close>

definition handler_508 :: "frame_io \<Rightarrow> pstate \<Rightarrow> pstate \<times> bool res" where
  "handler_508 f s =
     (case default_content_510 f of Inl e \<Rightarrow> (s, Inl e) | Inr _ \<Rightarrow> (focus_default s, Inr False))"

definition try_iframe :: "frame_io \<Rightarrow> nat \<Rightarrow> pstate \<Rightarrow> pstate \<times> bool res" where
  "try_iframe f i s =
     (case switch_frame_495 f of Inl _ \<Rightarrow> handler_508 f s | Inr _ \<Rightarrow>
      let s1 = focus_frame i s in
      case find_element_498 f of Inr _ \<Rightarrow> (s1, Inr True) | Inl _ \<Rightarrow>
      case page_source_504 f of Inl _ \<Rightarrow> handler_508 f s1 | Inr _ \<Rightarrow>
      case default_content_506 f of Inl _ \<Rightarrow> handler_508 f s1 | Inr _ \<Rightarrow>
      (focus_default s1, Inr False))"

fun try_iframes :: "frame_io list \<Rightarrow> nat \<Rightarrow> pstate \<Rightarrow> pstate \<times> bool res" where
  "try_iframes [] i s = (s, Inr False)"
| "try_iframes (f # fs) i s =
     (case try_iframe f i s of
        (s1, Inr False) \<Rightarrow> try_iframes fs (Suc i) s1
      | (s1, r) \<Rightarrow> (s1, r))"

text \<open>Lines 468 to 516: the pop-up window and the frame that holds the item page.\<close>

definition find_item_frame :: "popup_nav_io \<Rightarrow> handle \<Rightarrow> pstate \<Rightarrow> pstate \<times> control option" where
  "find_item_frame io main_window s =
     (case window_handles_468 io of Inl e \<Rightarrow> (s, Some (Raised e)) | Inr windows \<Rightarrow>
      if length windows < 2 then (append_to_excel Not_in_AceNet s, Some Advance)
      else
        case (case find (\<lambda>window. window \<noteq> main_window) windows of
                None \<Rightarrow> Inr s
              | Some popup_window \<Rightarrow>
                  (case switch_popup_477 io of
                     Inl e \<Rightarrow> Inl e
                   | Inr _ \<Rightarrow> Inr (focus_window popup_window s))) of
          Inl e \<Rightarrow> (s, Some (Raised e))
        | Inr s1 \<Rightarrow>
            (case iframes_482 io of
               Inl _ \<Rightarrow>
                 (let s2 = append_to_excel Not_in_AceNet s1 in
                  case switch_main_488 io of Inl e \<Rightarrow> (s2, Some (Raised e)) | Inr _ \<Rightarrow>
                  (focus_window main_window s2, Some Advance))
             | Inr iframes \<Rightarrow>
                 (case try_iframes iframes 0 s1 of
                    (s2, Inl e) \<Rightarrow> (s2, Some (Raised e))
                  | (s2, Inr True) \<Rightarrow> (s2, None)
                  | (s2, Inr False) \<Rightarrow>
                      (let s3 = append_to_excel Not_in_AceNet s2 in
                       case switch_main_514 io of Inl e \<Rightarrow> (s3, Some (Raised e)) | Inr _ \<Rightarrow>
                       (focus_window main_window s3, Some Advance)))))"

text \<open>
  Lines 517 to 556. Lines 535 to 540 are inside the \<open>try\<close> of line 520, so an exception of
  \<open>switch_to.default_content()\<close> or \<open>switch_to.window(main_window)\<close> there is caught at
  line 548 and the pass goes on to line 557 with \<open>is_cancelled = False\<close>; the same two calls
  at lines 553 and 554 are outside it. \<open>iframe_switched\<close> is true wherever this is reached.
\<close>

definition check_status :: "status_io \<Rightarrow> handle \<Rightarrow> pstate \<Rightarrow> pstate \<times> control option" where
  "check_status io main_window s =
     (case status_div_521 io of
        Inl _ \<Rightarrow> (s, None)
      | Inr raw \<Rightarrow>
          let status_text = strip raw in
          if status_text \<noteq> [] \<and> matches_not_in_rsc status_text then
            let s1 = append_to_excel Not_in_RSC s in
            case default_content_537 io of Inl _ \<Rightarrow> (s1, None) | Inr _ \<Rightarrow>
            let s2 = focus_default s1 in
            case switch_main_538 io of Inl _ \<Rightarrow> (s2, None) | Inr _ \<Rightarrow>
            (focus_window main_window s2, Some Advance)
          else if status_text \<noteq> [] \<and> has_cancelled_or_closeout status_text
                    \<and> \<not> has_replacement_or_discontinued status_text then
            let s1 = append_to_excel Cancelled s in
            case default_content_553 io of Inl e \<Rightarrow> (s1, Some (Raised e)) | Inr _ \<Rightarrow>
            let s2 = focus_default s1 in
            case switch_main_554 io of Inl e \<Rightarrow> (s2, Some (Raised e)) | Inr _ \<Rightarrow>
            (focus_window main_window s2, Some Advance)
          else (s, None))"

text \<open>
  Lines 557 to 578: \<open>probe_discovery io n attempt\<close> runs the last \<open>n\<close> rounds of the
  \<open>for attempt in range(max_attempts)\<close> loop and returns \<open>(element_found, discovery_text)\<close>.
  The debug print of \<open>driver.page_source\<close> is inside the \<open>except\<close> block, so its exception
  leaves the loop.
\<close>

fun probe_discovery :: "rules_io \<Rightarrow> nat \<Rightarrow> nat \<Rightarrow> (bool \<times> string) res" where
  "probe_discovery io 0 attempt = Inr (False, [])"
| "probe_discovery io (Suc n) attempt =
     (case content_div_563 io attempt of
        Inr raw \<Rightarrow> Inr (True, strip raw)
      | Inl _ \<Rightarrow>
          (case page_source_573 io attempt of
             Inl e \<Rightarrow> Inl e
           | Inr _ \<Rightarrow> probe_discovery io n (Suc attempt)))"

definition max_attempts :: "nat \<Rightarrow> nat" where
  "max_attempts idx = (if idx = 0 then 3 else 2)"

definition check_asterisk :: "rules_io \<Rightarrow> pstate \<Rightarrow> pstate" where
  "check_asterisk io s =
     (case link_element_584 io of
        Inl _ \<Rightarrow> s
      | Inr raw \<Rightarrow>
          let link_text = strip raw in
          if link_text \<noteq> [] \<and> CHR ''*'' \<notin> set link_text then append_to_excel No_Asterisk s else s)"

definition check_on_order :: "rules_io \<Rightarrow> pstate \<Rightarrow> pstate" where
  "check_on_order io s =
     (case order_span_596 io of
        Inl _ \<Rightarrow> s
      | Inr raw \<Rightarrow>
          let order_text = strip raw in
          case py_float order_text of
            Inl _ \<Rightarrow> s
          | Inr order_value \<Rightarrow> if float_gt_zero order_value then append_to_excel On_Order s else s)"

definition check_location :: "rules_io \<Rightarrow> pstate \<Rightarrow> pstate" where
  "check_location io s =
     (case location_element_614 io of
        Inl _ \<Rightarrow> append_to_excel No_Location s
      | Inr raw \<Rightarrow>
          let location_text = strip raw in
          if location_text = [] then append_to_excel No_Location s else s)"

text \<open>Lines 557 to 631; \<open>is_cancelled\<close> is false wherever line 579 is reached.\<close>

definition independent_rules :: "rules_io \<Rightarrow> nat \<Rightarrow> handle \<Rightarrow> pstate \<Rightarrow> pstate \<times> control" where
  "independent_rules io idx main_window s =
     (case probe_discovery io (max_attempts idx) 0 of
        Inl e \<Rightarrow> (s, Raised e)
      | Inr (element_found, discovery_text) \<Rightarrow>
          let s1 = (if \<not> element_found \<or> strip discovery_text = []
                    then append_to_excel No_Discovery s else s);
              s2 = check_asterisk io s1;
              s3 = check_on_order io s2;
              s4 = check_location io s3
          in
          case default_content_629 io of Inl e \<Rightarrow> (s4, Raised e) | Inr _ \<Rightarrow>
          let s5 = focus_default s4 in
          case switch_main_630 io of Inl e \<Rightarrow> (s5, Raised e) | Inr _ \<Rightarrow>
          (focus_window main_window s5, Advance))"

text \<open>
  Every iteration starts with the focus on the main window: it is the window of the fresh
  browser, or the last switch of the iteration before. \<open>search_phase\<close> is lines 369 to 447,
  \<open>navigate\<close> lines 369 to 516 and \<open>reach_rules\<close> lines 369 to 556; each returns \<open>None\<close>
  as control when the pass goes on to the next line.
\<close>

definition search_phase :: "world \<Rightarrow> handle \<Rightarrow> pstate \<times> control option" where
  "search_phase w main_window =
     bind_phase
       (locate_search_box (search w) main_window
          \<lparr>events = [], closed = [], focus = Window main_window\<rparr>)
       (submit_search (search w) main_window)"

definition navigate :: "world \<Rightarrow> handle \<Rightarrow> pstate \<times> control option" where
  "navigate w main_window =
     bind_phase
       (bind_phase (search_phase w main_window) (check_redirect (redirect w) main_window))
       (find_item_frame (popup w) main_window)"

definition reach_rules :: "world \<Rightarrow> handle \<Rightarrow> pstate \<times> control option" where
  "reach_rules w main_window =
     bind_phase (navigate w main_window) (check_status (status w) main_window)"

definition try_body :: "world \<Rightarrow> nat \<Rightarrow> handle \<Rightarrow> pstate \<times> control" where
  "try_body w idx main_window =
     last_phase (reach_rules w main_window) (independent_rules (rules w) idx main_window)"

section \<open>The \<open>while\<close> loop of \<open>automate_search\<close>, lines 353 to 651\<close>

text \<open>
  \<open>sheet\<close> is the log of the \<open>append_to_excel\<close> calls of the run and \<open>driver\<close> counts the
  browsers started so far. The loop ends by running out of part numbers, by \<open>break\<close> after
  the restart counter passed \<open>max_restarts\<close>, by \<open>break\<close> after a failed restart, or by an
  exception that leaves the loop for the handler of line 661.
\<close>

record run_state =
  idx :: nat
  restart_count :: nat
  sheet :: "(column \<times> string) list"
  driver :: nat
  main_window :: handle

datatype ending = Exhausted | Aborted | Login_failed | Crashed exc

datatype step = Continue run_state | Break ending run_state

definition max_restarts :: nat where
  "max_restarts = 50"

definition is_driver_alive :: "string res \<Rightarrow> bool res" where
  "is_driver_alive title =
     (case title of
        Inr _ \<Rightarrow> Inr True
      | Inl WebDriverException \<Rightarrow> Inr False
      | Inl e \<Rightarrow> Inl e)"

text \<open>\<open>driver = start_browser_and_login(); main_window = driver.current_window_handle\<close>\<close>

definition restart_browser :: "restart_io \<Rightarrow> run_state \<Rightarrow> run_state \<times> unit res" where
  "restart_browser io st =
     (case start_browser_and_login io of
        Inl e \<Rightarrow> (st, Inl e)
      | Inr _ \<Rightarrow>
          let st1 = st\<lparr>driver := Suc (driver st)\<rparr> in
          case current_window_handle io of
            Inl e \<Rightarrow> (st1, Inl e)
          | Inr h \<Rightarrow> (st1\<lparr>main_window := h\<rparr>, Inr ()))"

text \<open>Lines 356 to 367, outside the inner \<open>try\<close>.\<close>

definition health_check :: "world \<Rightarrow> run_state \<Rightarrow> step" where
  "health_check w st =
     (case is_driver_alive (title_297 w) of
        Inl e \<Rightarrow> Break (Crashed e) st
      | Inr True \<Rightarrow> Continue st
      | Inr False \<Rightarrow>
          let st1 = st\<lparr>restart_count := restart_count st + 1\<rparr> in
          if restart_count st1 > max_restarts then Break Aborted st1
          else
            case restart_browser (health_restart w) st1 of
              (st2, Inl e) \<Rightarrow> Break (Crashed e) st2
            | (st2, Inr _) \<Rightarrow> Continue st2)"

text \<open>Lines 635 to 651, and the same steps at lines 421 to 445.\<close>

definition recover :: "world \<Rightarrow> run_state \<Rightarrow> step" where
  "recover w st =
     (let st1 = st\<lparr>restart_count := restart_count st + 1\<rparr> in
      if restart_count st1 > max_restarts then Break Aborted st1
      else
        case restart_browser (fault_restart w) st1 of
          (st2, Inl _) \<Rightarrow> Break Login_failed st2
        | (st2, Inr _) \<Rightarrow> Continue (st2\<lparr>idx := idx st2 + 1\<rparr>))"

definition record_events :: "string \<Rightarrow> column list \<Rightarrow> run_state \<Rightarrow> run_state" where
  "record_events part_number cols st = st\<lparr>sheet := sheet st @ map (\<lambda>c. (c, part_number)) cols\<rparr>"

definition loop_body :: "world \<Rightarrow> string \<Rightarrow> run_state \<Rightarrow> step" where
  "loop_body w part_number st =
     (case health_check w st of
        Break b st1 \<Rightarrow> Break b st1
      | Continue st1 \<Rightarrow>
          (case try_body w (idx st1) (main_window st1) of
             (s, Advance) \<Rightarrow>
               Continue ((record_events part_number (events s) st1)\<lparr>idx := idx st1 + 1\<rparr>)
           | (s, Conn_restart) \<Rightarrow> recover w (record_events part_number (events s) st1)
           | (s, Raised e) \<Rightarrow>
               recover w (record_events part_number (events s @ [Not_in_AceNet]) st1)))"


text \<open>\<open>driver = start_browser_and_login()\<close> at line 349, then \<open>idx = 0\<close>.\<close>

definition initial_state :: "handle \<Rightarrow> run_state" where
  "initial_state h = \<lparr>idx = 0, restart_count = 0, sheet = [], driver = 1, main_window = h\<rparr>"



section \<open>Scripted browsers for concrete runs\<close>

text \<open>
  \<open>ok_world\<close> is an iteration in which every call succeeds: the search opens a pop-up whose
  only frame holds the item page, the item is active, has discovery text, a link with an
  asterisk, nothing on order and a location. The worlds below change single answers.
\<close>

definition ok_restart :: restart_io where
  "ok_restart = \<lparr>start_browser_and_login = Inr (), current_window_handle = Inr ''main''\<rparr>"

definition ok_search :: search_io where
  "ok_search =
     \<lparr>update_status_370 = Inr (), switch_main_371 = Inr (), search_box_373 = Inr (),
      switch_main_378 = Inr (), get_home_379 = Inr (), wait_box_380 = Inr (),
      search_box_385 = Inr (),
      handles_392 = Inr [\<lparr>ph = ''main'', p_switch = Inr (), p_close = Inr ()\<rparr>,
                         \<lparr>ph = ''popup'', p_switch = Inr (), p_close = Inr ()\<rparr>],
      switch_main_399 = Inr (), clear_402 = Inr (), send_keys_403 = Inr (),
      send_return_404 = Inr (),
      handles_411 = Inr [(''main'', Inr ()), (''popup'', Inr ())],
      switch_main_446 = Inr ()\<rparr>"

definition ok_redirect :: redirect_io where
  "ok_redirect =
     \<lparr>current_url_448 = Inr ''https://acenet.aceservices.com/'', switch_main_452 = Inr (),
      get_home_453 = Inr (), wait_box_454 = Inr (),
      handles_458 = Inr [\<lparr>ph = ''main'', p_switch = Inr (), p_close = Inr ()\<rparr>],
      switch_main_465 = Inr ()\<rparr>"

definition ok_frame :: frame_io where
  "ok_frame =
     \<lparr>switch_frame_495 = Inr (), find_element_498 = Inr (), page_source_504 = Inr (),
      default_content_506 = Inr (), default_content_510 = Inr ()\<rparr>"

definition ok_popup :: popup_nav_io where
  "ok_popup =
     \<lparr>window_handles_468 = Inr [''main'', ''popup''], switch_popup_477 = Inr (),
      iframes_482 = Inr [ok_frame], switch_main_488 = Inr (), switch_main_514 = Inr ()\<rparr>"

definition ok_status :: status_io where
  "ok_status =
     \<lparr>status_div_521 = Inr ''Active'', default_content_537 = Inr (), switch_main_538 = Inr (),
      default_content_553 = Inr (), switch_main_554 = Inr ()\<rparr>"

definition ok_rules :: rules_io where
  "ok_rules =
     \<lparr>content_div_563 = (\<lambda>attempt. Inr ''Paint *Brushes''),
      page_source_573 = (\<lambda>attempt. Inr ()),
      link_element_584 = Inr ''*Brushes'', order_span_596 = Inr ''0'',
      location_element_614 = Inr ''Aisle 4'', default_content_629 = Inr (),
      switch_main_630 = Inr ()\<rparr>"

definition ok_world :: world where
  "ok_world =
     \<lparr>title_297 = Inr ''AceNet'', health_restart = ok_restart, search = ok_search,
      redirect = ok_redirect, popup = ok_popup, status = ok_status, rules = ok_rules,
      fault_restart = ok_restart\<rparr>"

section \<open>Notions used by the properties\<close>

text \<open>
  What the navigation phases may have recorded when they are left, starting from the
  events \<open>evs\<close>: nothing when the pass goes on, \<open>Not in AceNet\<close> once when the pass ends
  there, either of the two when an exception is on its way to line 632.
\<close>

definition nav_events :: "column list \<Rightarrow> pstate \<times> control option \<Rightarrow> bool" where
  "nav_events evs r =
     (case r of
        (s, None) \<Rightarrow> events s = evs
      | (s, Some Advance) \<Rightarrow> events s = evs @ [Not_in_AceNet]
      | (s, Some Conn_restart) \<Rightarrow> events s = evs @ [Not_in_AceNet]
      | (s, Some (Raised e)) \<Rightarrow> events s = evs \<or> events s = evs @ [Not_in_AceNet])"

text \<open>
  The columns written for the part number in one iteration: those of the \<open>try\<close> body, and
  \<open>Not in AceNet\<close> from the handler of line 632 when an exception reaches it.
\<close>

definition pass_columns :: "world \<Rightarrow> nat \<Rightarrow> handle \<Rightarrow> column list" where
  "pass_columns w i h =
     (case try_body w i h of
        (s, Raised e) \<Rightarrow> events s @ [Not_in_AceNet]
      | (s, _) \<Rightarrow> events s)"





text \<open>
  The status reads \<open>Not carried in your RSC\<close> and \<open>switch_to.default_content()\<close> of line 537
  raises; the discovery region is absent and 3.5 is on order.
\<close>

definition rsc_fault_world :: world where
  "rsc_fault_world =
     ok_world\<lparr>status := ok_status\<lparr>status_div_521 := Inr ''Not carried in your RSC'',
                                    default_content_537 := Inl WebDriverException\<rparr>,
              rules := ok_rules\<lparr>content_div_563 := (\<lambda>attempt. Inl WebDriverException),
                                  order_span_596 := Inr ''3.5''\<rparr>\<rparr>"

text \<open>The status reads \<open>Cancelled - replacement available\<close>.\<close>

definition replacement_world :: world where
  "replacement_world =
     ok_world\<lparr>status := ok_status\<lparr>status_div_521 := Inr ''Cancelled - replacement available''\<rparr>\<rparr>"

text \<open>
  The status text of the item page as the rules see it: no rule fires on an absent status
  element, as none fires on an empty text.
\<close>

definition status_text_of :: "status_io \<Rightarrow> string" where
  "status_text_of io = (case status_div_521 io of Inl e \<Rightarrow> [] | Inr raw \<Rightarrow> strip raw)"

text \<open>The search opens no pop-up: the main window is the only window.\<close>

definition no_popup_world :: world where
  "no_popup_world = ok_world\<lparr>popup := ok_popup\<lparr>window_handles_468 := Inr [''main'']\<rparr>\<rparr>"






text \<open>
  The search box is missing at line 373 and still missing at the wait of line 380 that
  follows the reload of the home page.
\<close>

definition reload_timeout_world :: world where
  "reload_timeout_world =
     ok_world\<lparr>search := ok_search\<lparr>search_box_373 := Inl WebDriverException,
                                    wait_box_380 := Inl WebDriverException\<rparr>\<rparr>"

text \<open>
  The search box is missing at line 373, present at the wait of line 380 after the reload
  and missing again at line 385.
\<close>

definition box_vanishes_world :: world where
  "box_vanishes_world =
     ok_world\<lparr>search := ok_search\<lparr>search_box_373 := Inl WebDriverException,
                                    search_box_385 := Inl WebDriverException\<rparr>\<rparr>"

text \<open>
  The pass gets to the second probe for the search box, line 385, and that probe fails:
  the first probe failed, and the switch to the main window, the reload of the home page
  and the wait of line 380 returned.
\<close>

definition second_probe_fails :: "search_io \<Rightarrow> bool" where
  "second_probe_fails io =
     (update_status_370 io = Inr () \<and> switch_main_371 io = Inr () \<and> isl (search_box_373 io)
      \<and> switch_main_378 io = Inr () \<and> get_home_379 io = Inr () \<and> wait_box_380 io = Inr ()
      \<and> isl (search_box_385 io))"

section \<open>Events of the phases\<close>

lemma events_focus [simp]:
  "events (focus_window h s) = events s"
  "events (focus_frame i s) = events s"
  "events (focus_default s) = events s"
  "events (append_to_excel c s) = events s @ [c]"
  by (simp_all add: focus_window_def focus_frame_def focus_default_def append_to_excel_def)

lemma closed_focus [simp]:
  "closed (focus_window h s) = closed s"
  "closed (focus_frame i s) = closed s"
  "closed (focus_default s) = closed s"
  "closed (append_to_excel c s) = closed s"
  by (simp_all add: focus_window_def focus_frame_def focus_default_def append_to_excel_def)

lemma focus_focus [simp]:
  "focus (focus_window h s) = Window h"
  "focus (append_to_excel c s) = focus s"
  by (simp_all add: focus_window_def append_to_excel_def)

lemma events_close_popups [simp]: "events (close_popups m hs s) = events s"
  by (induction hs arbitrary: s) (auto split: sum.splits)

lemma events_visit_windows [simp]: "events (visit_windows hs s) = events s"
  by (induction hs s rule: visit_windows.induct) (auto split: sum.splits)

lemma events_try_iframe: "events (fst (try_iframe f i s)) = events s"
  by (auto simp: try_iframe_def handler_508_def Let_def split: sum.splits)

lemma events_try_iframes [simp]: "events (fst (try_iframes fs i s)) = events s"
proof (induction fs arbitrary: i s)
  case Nil
  show ?case by simp
next
  case (Cons f fs)
  obtain s1 r where t: "try_iframe f i s = (s1, r)"
    by (cases "try_iframe f i s")
  have "events s1 = events s"
    using events_try_iframe [of f i s] t by simp
  with Cons t show ?case
    by (auto split: sum.splits bool.splits)
qed

lemma nav_locate_search_box: "nav_events (events s) (locate_search_box io m s)"
  by (simp add: nav_events_def locate_search_box_def Let_def split: sum.splits)

lemma nav_submit_search: "nav_events (events s) (submit_search io m s)"
  by (simp add: nav_events_def submit_search_def Let_def split: sum.splits)

lemma nav_check_redirect: "nav_events (events s) (check_redirect io m s)"
  by (simp add: nav_events_def check_redirect_def Let_def split: sum.splits)

lemma nav_find_item_frame: "nav_events (events s) (find_item_frame io m s)"
proof -
  have t: "events s2 = events s1" if "try_iframes fs 0 s1 = (s2, r)" for fs s1 s2 r
    using events_try_iframes [of fs 0 s1] that by simp
  show ?thesis
    by (auto simp: nav_events_def find_item_frame_def Let_def dest: t
        split: sum.splits option.splits prod.splits bool.splits)
qed

lemma nav_bind:
  assumes "nav_events evs r" and "\<And>s. events s = evs \<Longrightarrow> nav_events evs (f s)"
  shows "nav_events evs (bind_phase r f)"
proof (cases r)
  case (Pair s c)
  show ?thesis
  proof (cases c)
    case None
    with Pair assms(1) have "events s = evs"
      by (simp add: nav_events_def)
    from assms(2) [OF this] show ?thesis
      using Pair None by (simp add: bind_phase_def)
  next
    case (Some x)
    with Pair assms(1) show ?thesis
      by (simp add: bind_phase_def)
  qed
qed

lemma nav_search_phase: "nav_events [] (search_phase w m)"
proof -
  have "nav_events [] (locate_search_box (search w) m \<lparr>events = [], closed = [], focus = Window m\<rparr>)"
    using nav_locate_search_box [of "\<lparr>events = [], closed = [], focus = Window m\<rparr>" "search w" m]
    by simp
  moreover have "nav_events [] (submit_search (search w) m s)" if "events s = []" for s
    using nav_submit_search [of s "search w" m] that by simp
  ultimately show ?thesis
    unfolding search_phase_def by (rule nav_bind)
qed

lemma nav_navigate: "nav_events [] (navigate w m)"
proof -
  have a: "nav_events [] (check_redirect (redirect w) m s)" if "events s = []" for s
    using nav_check_redirect [of s "redirect w" m] that by simp
  have b: "nav_events [] (find_item_frame (popup w) m s)" if "events s = []" for s
    using nav_find_item_frame [of s "popup w" m] that by simp
  show ?thesis
    unfolding navigate_def
    by (rule nav_bind [OF nav_bind [OF nav_search_phase a] b])
qed









section \<open>Evaluation of concrete runs\<close>

lemmas ok_defs = ok_world_def ok_search_def ok_redirect_def ok_popup_def ok_frame_def
  ok_status_def ok_rules_def ok_restart_def

lemmas phase_defs = try_body_def reach_rules_def navigate_def search_phase_def bind_phase_def
  last_phase_def locate_search_box_def submit_search_def check_redirect_def find_item_frame_def
  try_iframe_def handler_508_def check_status_def independent_rules_def check_asterisk_def
  check_on_order_def check_location_def max_attempts_def append_to_excel_def focus_window_def
  focus_frame_def focus_default_def numeral_3_eq_3 numeral_2_eq_2

lemmas text_defs = strip_def is_space_def lower_def lit_def matches_not_in_rsc_def
  rx_not_carried_in_your_rsc_def rx_not_carried_by_rsc_def rx_not_in_rsc_def
  has_cancelled_or_closeout_def has_replacement_or_discontinued_def py_float_def is_c_space_def
  is_digit_def split_sign_def parse_number_def parse_exponent_def digits_val_def digit_val_def
  float_gt_zero_def

lemmas loop_defs = loop_body_def health_check_def is_driver_alive_def recover_def
  restart_browser_def record_events_def max_restarts_def initial_state_def

section \<open>C1: Not in AceNet and the other columns\<close>








section \<open>One iteration of the loop\<close>

lemma health_check_alive:
  "is_driver_alive (title_297 w) = Inr True \<Longrightarrow> health_check w st = Continue st"
  by (simp add: health_check_def)







text \<open>The iteration after a successful health check, in terms of the pass.\<close>

lemma loop_body_after_health:
  assumes "health_check w st = Continue st1"
  shows "loop_body w pn st =
     (if snd (try_body w (idx st1) (main_window st1)) = Advance
      then Continue ((record_events pn (pass_columns w (idx st1) (main_window st1)) st1)
                       \<lparr>idx := idx st1 + 1\<rparr>)
      else recover w (record_events pn (pass_columns w (idx st1) (main_window st1)) st1))"
  using assms
  by (cases "try_body w (idx st1) (main_window st1)")
    (auto simp: loop_body_def pass_columns_def split: control.splits)



section \<open>C2: what a fault costs\<close>






section \<open>C5 and C6: the restart budget over a run\<close>










section \<open>C3 and C4: the status rules\<close>

lemma navigate_None_events:
  assumes "navigate w m = (s0, None)"
  shows "events s0 = []"
  using nav_navigate [of w m] assms by (simp add: nav_events_def)

lemma no_match_on_empty:
  "\<not> matches_not_in_rsc []" "\<not> has_cancelled_or_closeout []"
  by (simp_all add: text_defs)

lemma rsc_short_circuit:
  assumes "navigate w m = (s0, None)"
    and "matches_not_in_rsc (status_text_of (status w))"
    and "default_content_537 (status w) = Inr ()" and "switch_main_538 (status w) = Inr ()"
  shows "events (fst (try_body w i m)) = [Not_in_RSC] \<and> snd (try_body w i m) = Advance"
proof -
  have "\<exists>raw. status_div_521 (status w) = Inr raw \<and> strip raw \<noteq> []
      \<and> matches_not_in_rsc (strip raw)"
  proof (cases "status_div_521 (status w)")
    case (Inl e)
    with assms(2) no_match_on_empty(1) show ?thesis
      by (simp add: status_text_of_def)
  next
    case (Inr raw)
    with assms(2) no_match_on_empty(1) show ?thesis
      by (cases "strip raw = []") (simp_all add: status_text_of_def)
  qed
  then obtain raw where raw: "status_div_521 (status w) = Inr raw"
    "strip raw \<noteq> []" "matches_not_in_rsc (strip raw)"
    by blast
  with assms(3,4) have "check_status (status w) m s0
      = (focus_window m (focus_default (append_to_excel Not_in_RSC s0)), Some Advance)"
    by (simp add: check_status_def Let_def)
  with assms(1) navigate_None_events [OF assms(1)] show ?thesis
    by (simp add: try_body_def reach_rules_def bind_phase_def last_phase_def)
qed

lemma try_body_rsc_fault_world:
  "try_body rsc_fault_world 1 ''main'' =
     (\<lparr>events = [Not_in_RSC, No_Discovery, On_Order], closed = [], focus = Window ''main''\<rparr>,
      Advance)"
  by (simp add: rsc_fault_world_def ok_defs phase_defs text_defs)

text \<open>
  C3. The claim is right and the code misses it: the comment of line 534 says that a part
  number not carried in the RSC skips all other checks, but lines 535 to 540 stand inside
  the \<open>try\<close> of line 520. With the status \<open>Not carried in your RSC\<close>, when
  \<open>switch_to.default_content()\<close> raises at line 537 the handler of line 548 swallows the
  exception and the pass goes on to the remaining rules: the part number is written to
  \<open>Not in RSC\<close>, \<open>No Discovery\<close> and \<open>On Order\<close>.
\<close>

theorem C3_rsc_rule_continues_after_fault:
  "matches_not_in_rsc (status_text_of (status rsc_fault_world))
   \<and> pass_columns rsc_fault_world 1 ''main'' = [Not_in_RSC, No_Discovery, On_Order]"
proof -
  have "status_text_of (status rsc_fault_world) = ''Not carried in your RSC''"
    by (simp add: status_text_of_def rsc_fault_world_def ok_defs strip_def is_space_def)
  moreover have "matches_not_in_rsc ''Not carried in your RSC''"
    by (simp add: text_defs)
  moreover have "pass_columns rsc_fault_world 1 ''main'' = [Not_in_RSC, No_Discovery, On_Order]"
    unfolding pass_columns_def try_body_rsc_fault_world by simp
  ultimately show ?thesis
    by simp
qed



lemma try_body_replacement_world:
  "try_body replacement_world 0 ''main'' =
     (\<lparr>events = [], closed = [], focus = Window ''main''\<rparr>, Advance)"
  by (simp add: replacement_world_def ok_defs phase_defs text_defs)


section \<open>C7: redirect to the search page, or no pop-up\<close>





lemma try_body_no_popup_world:
  "try_body no_popup_world 0 ''main'' =
     (\<lparr>events = [Not_in_AceNet], closed = [], focus = Window ''main''\<rparr>, Advance)"
  by (simp add: no_popup_world_def ok_defs phase_defs)


section \<open>C8 and C9: the independent rules\<close>









lemma probe_discovery_order_span [simp]:
  "probe_discovery (io\<lparr>order_span_596 := x\<rparr>) n a = probe_discovery io n a"
  by (induction n arbitrary: a) (simp_all split: sum.splits)





section \<open>C10: the search box is not found\<close>

lemma closed_close_popups:
  "closed (close_popups m hs s) =
     closed s @ map ph (filter (\<lambda>p. ph p \<noteq> m \<and> p_switch p = Inr () \<and> p_close p = Inr ()) hs)"
  by (induction hs arbitrary: s) (auto split: sum.splits)

lemma locate_search_box_skip:
  assumes "second_probe_fails io" and "handles_392 io = Inr hs" and "switch_main_399 io = Inr ()"
  shows "locate_search_box io m s =
     (focus_window m (close_popups m hs (append_to_excel Not_in_AceNet (focus_window m s))),
      Some Advance)"
  using assms
  by (auto simp: second_probe_fails_def locate_search_box_def Let_def isl_def)

text \<open>
  C10, as amended. If the first probe for the search input fails, the reload of the home
  page and the wait that follows it return, the second probe fails too, and the listing of
  the window handles and the last switch to the main window return, then the \<open>try\<close> body
  records \<open>Not in AceNet\<close> and nothing else, closes every window other than the main one
  whose switch and close return, leaves the focus on the main window and ends by
  \<open>idx += 1\<close>; with a live browser the iteration adds that single entry to the sheet and
  changes neither the restart counter nor the browser.
\<close>

theorem C10_search_box_skip:
  assumes "second_probe_fails (search w)"
    and "handles_392 (search w) = Inr hs"
    and "switch_main_399 (search w) = Inr ()"
    and "is_driver_alive (title_297 w) = Inr True"
  shows "try_body w (idx st) (main_window st) =
      (\<lparr>events = [Not_in_AceNet],
        closed = map ph (filter (\<lambda>p. ph p \<noteq> main_window st \<and> p_switch p = Inr ()
                                    \<and> p_close p = Inr ()) hs),
        focus = Window (main_window st)\<rparr>, Advance)
    \<and> loop_body w pn st =
        Continue (st\<lparr>sheet := sheet st @ [(Not_in_AceNet, pn)], idx := idx st + 1\<rparr>)"
proof -
  let ?m = "main_window st"
  let ?s = "focus_window ?m (close_popups ?m hs (append_to_excel Not_in_AceNet
      (focus_window ?m \<lparr>events = [], closed = [], focus = Window ?m\<rparr>)))"
  have s: "?s = \<lparr>events = [Not_in_AceNet],
        closed = map ph (filter (\<lambda>p. ph p \<noteq> ?m \<and> p_switch p = Inr () \<and> p_close p = Inr ()) hs),
        focus = Window ?m\<rparr>"
    by (rule pstate.equality) (simp_all add: closed_close_popups)
  have "try_body w (idx st) ?m = (?s, Advance)"
    using locate_search_box_skip [OF assms(1,2,3)]
    by (simp add: try_body_def reach_rules_def navigate_def search_phase_def bind_phase_def
        last_phase_def)
  with s have tb: "try_body w (idx st) ?m =
      (\<lparr>events = [Not_in_AceNet],
        closed = map ph (filter (\<lambda>p. ph p \<noteq> ?m \<and> p_switch p = Inr () \<and> p_close p = Inr ()) hs),
        focus = Window ?m\<rparr>, Advance)"
    by simp
  from loop_body_after_health [OF health_check_alive [OF assms(4)], of pn st] tb
  show ?thesis
    by (simp add: pass_columns_def record_events_def)
qed

theorem C10_witness:
  "second_probe_fails (search box_vanishes_world)
   \<and> is_driver_alive (title_297 box_vanishes_world) = Inr True
   \<and> try_body box_vanishes_world 0 ''main'' =
       (\<lparr>events = [Not_in_AceNet], closed = [''popup''], focus = Window ''main''\<rparr>, Advance)
   \<and> loop_body box_vanishes_world ''A1'' (initial_state ''main'') =
       Continue \<lparr>idx = 1, restart_count = 0, sheet = [(Not_in_AceNet, ''A1'')], driver = 1,
         main_window = ''main''\<rparr>"
proof -
  have a: "second_probe_fails (search box_vanishes_world)"
    by (simp add: second_probe_fails_def box_vanishes_world_def ok_defs)
  have b: "handles_392 (search box_vanishes_world) =
      Inr [\<lparr>ph = ''main'', p_switch = Inr (), p_close = Inr ()\<rparr>,
           \<lparr>ph = ''popup'', p_switch = Inr (), p_close = Inr ()\<rparr>]"
    by (simp add: box_vanishes_world_def ok_defs)
  have c: "switch_main_399 (search box_vanishes_world) = Inr ()"
    by (simp add: box_vanishes_world_def ok_defs)
  have d: "is_driver_alive (title_297 box_vanishes_world) = Inr True"
    by (simp add: box_vanishes_world_def ok_defs is_driver_alive_def)
  from C10_search_box_skip [OF a b c d, of "initial_state ''main''" "''A1''"] a d
  show ?thesis
    by (simp add: initial_state_def)
qed

lemma try_body_reload_timeout_world:
  "try_body reload_timeout_world 0 ''main'' =
     (\<lparr>events = [], closed = [], focus = Window ''main''\<rparr>, Raised WebDriverException)"
  by (simp add: reload_timeout_world_def ok_defs phase_defs)

text \<open>
  The claim as stated fails: when the search box is still missing at the wait of line 380,
  the exception goes to the handler of line 632, which records \<open>Not in AceNet\<close>, counts a
  restart and starts a new browser.
\<close>

theorem C10_counterexample:
  "loop_body reload_timeout_world ''A1'' (initial_state ''main'') =
     Continue \<lparr>idx = 1, restart_count = 1, sheet = [(Not_in_AceNet, ''A1'')],
       driver = 2, main_window = ''main''\<rparr>"
proof -
  have "title_297 reload_timeout_world = Inr ''AceNet''"
    "fault_restart reload_timeout_world = ok_restart"
    by (simp_all add: reload_timeout_world_def ok_world_def)
  then show ?thesis
    by (simp add: loop_defs try_body_reload_timeout_world ok_restart_def)
qed

end
